theory Spec2Isabelle
  imports Main
begin

section \<open>JavaScript values\<close>

text \<open>
  Both programs of the repository pass JSON data around without looking inside it, apart
  from property reads and truthiness tests. A value is one of JavaScript's: \<open>undefined\<close>
  (what a missing property reads as), \<open>null\<close>, a boolean, a number, a string, an array or
  an object. Numbers are integers here: the only number any claim looks at is
  \<open>DA_Number\<close>. An object is the list of its key/value pairs, the first pair of a key
  being the one a read finds.
\<close>

datatype jsval =
    JUndefined
  | JNull
  | JBool bool
  | JNum int
  | JStr string
  | JArr "jsval list"
  | JObj "(string \<times> jsval) list"

datatype js_error = TypeError

text \<open>JavaScript's truthiness, as \<open>if (v)\<close>, \<open>v && w\<close> and \<open>v ? a : b\<close> test it.\<close>

fun truthy :: "jsval \<Rightarrow> bool" where
  "truthy JUndefined = False"
| "truthy JNull = False"
| "truthy (JBool b) = b"
| "truthy (JNum n) = (n \<noteq> 0)"
| "truthy (JStr s) = (s \<noteq> [])"
| "truthy (JArr xs) = True"
| "truthy (JObj kvs) = True"

definition nullish :: "jsval \<Rightarrow> bool" where
  "nullish v = (v = JUndefined \<or> v = JNull)"

fun is_array :: "jsval \<Rightarrow> bool" where
  "is_array (JArr xs) = True"
| "is_array v = False"


text \<open>
  \<open>field v k\<close> is the read \<open>v.k\<close> on a value that is neither \<open>null\<close> nor \<open>undefined\<close>, for
  the keys the sources read (\<open>message\<close> and the twelve column names), none of which is a
  built-in property of a primitive or an array: a missing key reads as \<open>undefined\<close>.
  \<open>read_prop\<close> is the read on any value: on \<open>null\<close> and \<open>undefined\<close> it throws.
\<close>

fun field :: "jsval \<Rightarrow> string \<Rightarrow> jsval" where
  "field (JObj kvs) k = (case map_of kvs k of None \<Rightarrow> JUndefined | Some v \<Rightarrow> v)"
| "field v k = JUndefined"

definition read_prop :: "jsval \<Rightarrow> string \<Rightarrow> js_error + jsval" where
  "read_prop v k = (if nullish v then Inl TypeError else Inr (field v k))"

section \<open>The API gateway: backend/index.js\<close>

text \<open>
  The query the route builds:
  \<^verbatim>\<open>supabase.from(TABLE).select("*").order("DA_Number", { ascending: false })\<close>.
  The database client is a library, so the data service is a parameter of the handler: a
  function from the query to the pair \<open>{ data, error }\<close> the handler destructures.
\<close>

record query =
  table :: string
  columns :: string
  order_column :: string
  ascending :: bool

definition TABLE :: string where
  "TABLE = ''scrapedata''"

definition data_query :: query where
  "data_query =
     \<lparr>table = TABLE, columns = ''*'', order_column = ''DA_Number'', ascending = False\<rparr>"

record query_result =
  data :: jsval
  error :: jsval

text \<open>
  A request: its method, its path, its headers, whether its \<open>Content-Type\<close> is JSON, and
  its body as a JSON parser finds it: none, a text that parses to a value, or a text that
  does not parse.
\<close>

datatype raw_body =
    NoBody
  | JsonText jsval
  | BrokenJson string

record request =
  req_method :: string
  req_path :: string
  headers :: "(string \<times> string) list"
  json_typed :: bool
  raw_body :: raw_body

record response =
  status :: nat
  body :: jsval

text \<open>
  The handler of \<open>app.get("/api/data", ...)\<close>. Its state is the console, a list of the
  values logged so far; \<open>res.json(v)\<close> sends \<open>v\<close> with the status set before, 200 when none
  was set. A response is the status and the value the handler gives to \<open>res.status\<close> and
  \<open>res.json\<close>. The result is the response, or the exception thrown, and the new console.
  \<^verbatim>\<open>
  if (error) {
    console.log(error)
    return res.status(500).json({ error: error.message });
  }
  console.log(data)
  res.json(data);
  \<close>
\<close>

definition api_data_handler ::
  "(query \<Rightarrow> query_result) \<Rightarrow> request \<Rightarrow> jsval list \<Rightarrow> (js_error + response) \<times> jsval list" where
  "api_data_handler supabase req console =
     (let r = supabase data_query in
      if truthy (error r) then
        (case read_prop (error r) ''message'' of
           Inl e \<Rightarrow> (Inl e, console @ [error r])
         | Inr m \<Rightarrow>
             (Inr \<lparr>status = 500, body = JObj [(''error'', m)]\<rparr>, console @ [error r]))
      else (Inr \<lparr>status = 200, body = data r\<rparr>, console @ [data r]))"

subsection \<open>The middleware ahead of the route\<close>







section \<open>The presentation client: App\<close>

subsection \<open>The element tree\<close>

text \<open>
  What the JSX of \<open>App\<close> builds: an element has a tag, its props and its children; a child
  is an element or a JavaScript value in braces (a text of the JSX is a string value). The
  array \<open>rows.map(...)\<close> gives is the children of \<open>tbody\<close>.
\<close>

datatype vnode =
    Elem string "(string \<times> jsval) list" "vnode list"
  | Expr jsval

definition th :: "string \<Rightarrow> vnode" where
  "th label = Elem ''th'' [] [Expr (JStr label)]"

definition td :: "jsval \<Rightarrow> vnode" where
  "td v = Elem ''td'' [] [Expr v]"

definition header_row :: vnode where
  "header_row =
     Elem ''tr'' []
       [th ''DA Number'', th ''Detail URL'', th ''Description'', th ''Submitted Date'',
        th ''Decision'', th ''Categories'', th ''Property Address'', th ''Applicant'',
        th ''Progress'', th ''Fees'', th ''Documents'', th ''Contact Council'']"

definition detail_url_cell :: "jsval \<Rightarrow> vnode" where
  "detail_url_cell row =
     Elem ''td'' []
       [Elem ''a''
          [(''href'', field row ''Detail_URL''), (''target'', JStr ''_blank''),
           (''rel'', JStr ''noreferrer'')]
          [Expr (field row ''Detail_URL'')]]"

text \<open>
  \<^verbatim>\<open>
  {row.Documents && row.Documents !== "Not available" ? (
    <a href={row.Documents} target="_blank" rel="noreferrer">View Documents</a>
  ) : ( "Not available" )}
  \<close>
\<close>

definition documents_cell :: "jsval \<Rightarrow> vnode" where
  "documents_cell row =
     Elem ''td'' []
       [if truthy (field row ''Documents'') \<and> field row ''Documents'' \<noteq> JStr ''Not available''
        then Elem ''a''
               [(''href'', field row ''Documents''), (''target'', JStr ''_blank''),
                (''rel'', JStr ''noreferrer'')]
               [Expr (JStr ''View Documents'')]
        else Expr (JStr ''Not available'')]"

text \<open>
  The callback of \<open>rows.map\<close>. Its first read, \<open>row.DA_Number\<close>, throws when the row is
  \<open>null\<close> or \<open>undefined\<close>; on any other value every read returns.
\<close>

definition render_row :: "jsval \<Rightarrow> js_error + vnode" where
  "render_row row =
     (if nullish row then Inl TypeError
      else Inr (Elem ''tr'' [(''key'', field row ''DA_Number'')]
        [td (field row ''DA_Number''),
         detail_url_cell row,
         td (field row ''Description''),
         td (field row ''Submitted_Date''),
         td (field row ''Decision''),
         td (field row ''Categories''),
         td (field row ''Property_Address''),
         td (field row ''Applicant''),
         td (field row ''Progress''),
         td (field row ''Fees''),
         documents_cell row,
         td (field row ''Contact_Council'')]))"

fun map_rows :: "jsval list \<Rightarrow> js_error + vnode list" where
  "map_rows [] = Inr []"
| "map_rows (row # rest) =
     (case render_row row of
        Inl e \<Rightarrow> Inl e
      | Inr tr \<Rightarrow> (case map_rows rest of Inl e \<Rightarrow> Inl e | Inr trs \<Rightarrow> Inr (tr # trs)))"

text \<open>
  What \<open>App\<close> returns for the current \<open>rows\<close>. Only an array has \<open>map\<close>: on any other value
  the call \<open>rows.map(...)\<close> throws.
\<close>

definition App_view :: "jsval \<Rightarrow> js_error + vnode" where
  "App_view rws =
     (case rws of
        JArr xs \<Rightarrow>
          (case map_rows xs of
             Inl e \<Rightarrow> Inl e
           | Inr trs \<Rightarrow>
               Inr (Elem ''div'' [(''className'', JStr ''container'')]
                 [Elem ''h1'' [] [Expr (JStr ''Scraped Data'')],
                  Elem ''table'' [(''className'', JStr ''styled-table'')]
                    [Elem ''thead'' [] [header_row],
                     Elem ''tbody'' [] trs]]))
      | _ \<Rightarrow> Inl TypeError)"

subsection \<open>The request and the state\<close>

text \<open>
  \<open>axios.get\<close> returns a promise. With the library's default status check it resolves with
  the response (of which the client reads \<open>data\<close>) when the status is 2xx, and rejects
  otherwise: with the transport's error when no response came, with an error made from the
  response when its status is not 2xx.
\<close>

datatype transport =
    NetworkError jsval
  | HttpResponse nat jsval

record axios_response =
  resp_status :: nat
  resp_data :: jsval

datatype promise =
    Resolved axios_response
  | Rejected jsval

definition failed_status :: "nat \<Rightarrow> jsval \<Rightarrow> jsval" where
  "failed_status st d =
     JObj [(''message'', JStr ''Request failed''), (''status'', JNum (int st)), (''data'', d)]"

fun axios_get :: "transport \<Rightarrow> promise" where
  "axios_get (NetworkError err) = Rejected err"
| "axios_get (HttpResponse st d) =
     (if 200 \<le> st \<and> st < 300 then Resolved \<lparr>resp_status = st, resp_data = d\<rparr>
      else Rejected (failed_status st d))"

definition api_url :: string where
  "api_url = ''http://localhost:5000/api/data''"

text \<open>
  The component's state: \<open>rows\<close> of \<open>useState([])\<close>; the dependency array the effect last
  ran with (\<open>None\<close> before the first render); the requests sent so far; and what
  \<open>console.error\<close> was given. \<open>useEffect(f, deps)\<close> runs \<open>f\<close> after the first render and
  after a render whose \<open>deps\<close> differ from the last run's; \<open>App\<close> passes \<open>[]\<close>.
\<close>

record client =
  rows :: jsval
  last_deps :: "jsval list option"
  requests :: "string list"
  console_error :: "jsval list"

definition initial_client :: client where
  "initial_client = \<lparr>rows = JArr [], last_deps = None, requests = [], console_error = []\<rparr>"

definition effect_deps :: "jsval list" where
  "effect_deps = []"

definition run_effect :: "client \<Rightarrow> client" where
  "run_effect s =
     (if last_deps s = Some effect_deps then s
      else s\<lparr>last_deps := Some effect_deps, requests := requests s @ [api_url]\<rparr>)"

text \<open>
  An event is a render of the component (the first one is the mount) or the settling of
  the promise. \<open>.then((res) => setRows(res.data))\<close> stores the data and the state change
  renders the component again; \<open>.catch((err) => console.error(err))\<close> logs.
\<close>

datatype event =
    Render
  | Settled promise

fun step :: "client \<Rightarrow> event \<Rightarrow> client" where
  "step s Render = run_effect s"
| "step s (Settled (Resolved res)) = run_effect (s\<lparr>rows := resp_data res\<rparr>)"
| "step s (Settled (Rejected err)) = s\<lparr>console_error := console_error s @ [err]\<rparr>"

definition run :: "client \<Rightarrow> event list \<Rightarrow> client" where
  "run s evs = foldl step s evs"

definition view :: "client \<Rightarrow> js_error + vnode" where
  "view s = App_view (rows s)"

section \<open>What the claims speak of\<close>

subsection \<open>Records and their order\<close>

text \<open>
  The twelve fields of a DA record, and the properties of a result set the claims name:
  every element an object of exactly these fields, no \<open>DA_Number\<close> twice, and the
  elements in descending order of \<open>DA_Number\<close>. Neither source file computes any of
  them; they are here to state what the route does to a result set that has them.
\<close>

definition da_fields :: "string list" where
  "da_fields =
     [''DA_Number'', ''Detail_URL'', ''Description'', ''Submitted_Date'', ''Decision'',
      ''Categories'', ''Property_Address'', ''Applicant'', ''Progress'', ''Fees'',
      ''Documents'', ''Contact_Council'']"

fun has_exact_fields :: "jsval \<Rightarrow> bool" where
  "has_exact_fields (JObj kvs) = (distinct (map fst kvs) \<and> set (map fst kvs) = set da_fields)"
| "has_exact_fields v = False"

fun da_numbers :: "jsval \<Rightarrow> jsval list" where
  "da_numbers (JArr xs) = map (\<lambda>r. field r ''DA_Number'') xs"
| "da_numbers v = []"

fun elements :: "jsval \<Rightarrow> jsval list" where
  "elements (JArr xs) = xs"
| "elements v = []"

definition da_records :: "jsval \<Rightarrow> bool" where
  "da_records v =
     (is_array v \<and> list_all has_exact_fields (elements v) \<and> distinct (da_numbers v))"

fun js_ge :: "jsval \<Rightarrow> jsval \<Rightarrow> bool" where
  "js_ge (JNum a) (JNum b) = (b \<le> a)"
| "js_ge v w = False"

definition descending :: "jsval \<Rightarrow> bool" where
  "descending v = (is_array v \<and> sorted_wrt js_ge (da_numbers v))"


subsection \<open>Element trees\<close>

fun children :: "vnode \<Rightarrow> vnode list" where
  "children (Elem tag props kids) = kids"
| "children (Expr v) = []"

fun has_link :: "vnode \<Rightarrow> bool" where
  "has_link (Elem tag props kids) = (tag = ''a'' \<or> (\<exists>k \<in> set kids. has_link k))"
| "has_link (Expr v) = False"

definition external_link :: "jsval \<Rightarrow> vnode list \<Rightarrow> vnode" where
  "external_link href kids =
     Elem ''a'' [(''href'', href), (''target'', JStr ''_blank''), (''rel'', JStr ''noreferrer'')] kids"

definition empty_table :: vnode where
  "empty_table =
     Elem ''div'' [(''className'', JStr ''container'')]
       [Elem ''h1'' [] [Expr (JStr ''Scraped Data'')],
        Elem ''table'' [(''className'', JStr ''styled-table'')]
          [Elem ''thead'' [] [header_row],
           Elem ''tbody'' [] []]]"

subsection \<open>A failed request\<close>

text \<open>A failed fetch: no response came, or the response's status is not 2xx.\<close>

fun failed :: "transport \<Rightarrow> bool" where
  "failed (NetworkError err) = True"
| "failed (HttpResponse st d) = (st < 200 \<or> 300 \<le> st)"

fun rejection :: "transport \<Rightarrow> jsval" where
  "rejection (NetworkError err) = err"
| "rejection (HttpResponse st d) = failed_status st d"

subsection \<open>Concrete inputs\<close>

definition da_record :: "int \<Rightarrow> string \<Rightarrow> jsval" where
  "da_record n docs =
     JObj [(''DA_Number'', JNum n), (''Detail_URL'', JStr ''https://example.com/da/123''),
           (''Description'', JStr ''Carport''), (''Submitted_Date'', JStr ''2024-05-01''),
           (''Decision'', JStr ''Approved''), (''Categories'', JStr ''Residential''),
           (''Property_Address'', JStr ''1 High St''), (''Applicant'', JStr ''A Smith''),
           (''Progress'', JStr ''Determined''), (''Fees'', JStr ''Paid''),
           (''Documents'', JStr docs), (''Contact_Council'', JStr ''Yes'')]"

definition service_5_3_9 :: "query \<Rightarrow> query_result" where
  "service_5_3_9 q =
     \<lparr>data = JArr [da_record 5 ''Not available'', da_record 3 ''Not available'',
                   da_record 9 ''Not available''],
      error = JNull\<rparr>"

definition service_9_5_3 :: "query \<Rightarrow> query_result" where
  "service_9_5_3 q =
     \<lparr>data = JArr [da_record 9 ''Not available'', da_record 5 ''Not available'',
                   da_record 3 ''Not available''],
      error = JNull\<rparr>"

definition service_extra_column :: "query \<Rightarrow> query_result" where
  "service_extra_column q =
     \<lparr>data = JArr [JObj [(''id'', JNum 1), (''DA_Number'', JNum 7), (''Detail_URL'', JNull),
                         (''Description'', JNull), (''Submitted_Date'', JNull),
                         (''Decision'', JNull), (''Categories'', JNull),
                         (''Property_Address'', JNull), (''Applicant'', JNull),
                         (''Progress'', JNull), (''Fees'', JNull), (''Documents'', JNull),
                         (''Contact_Council'', JNull)]],
      error = JNull\<rparr>"

definition service_duplicate :: "query \<Rightarrow> query_result" where
  "service_duplicate q =
     \<lparr>data = JArr [da_record 7 ''Not available'', da_record 7 ''https://example.com/doc.pdf''],
      error = JNull\<rparr>"





definition get_request :: request where
  "get_request =
     \<lparr>req_method = ''GET'', req_path = ''/api/data'', headers = [], json_typed = False,
      raw_body = NoBody\<rparr>"

definition other_request :: request where
  "other_request =
     \<lparr>req_method = ''GET'', req_path = ''/api/data?x=1'',
      headers = [(''accept'', ''text/html''), (''content-type'', ''application/json'')],
      json_typed = True, raw_body = JsonText (JObj [(''ignored'', JBool True)])\<rparr>"


section \<open>Lemmas\<close>

subsection \<open>The handler, by cases of the query result\<close>


lemma handler_success:
  "\<not> truthy (error (supabase data_query)) \<Longrightarrow>
   api_data_handler supabase req console =
     (Inr \<lparr>status = 200, body = data (supabase data_query)\<rparr>,
      console @ [data (supabase data_query)])"
  by (simp add: api_data_handler_def Let_def)


lemma da_record_fields: "has_exact_fields (da_record n docs)"
  by (simp add: da_record_def da_fields_def)

lemma da_record_number: "field (da_record n docs) ''DA_Number'' = JNum n"
  by (simp add: da_record_def)

lemma da_record_documents: "field (da_record n docs) ''Documents'' = JStr docs"
  by (simp add: da_record_def)

lemma da_record_detail_url:
  "field (da_record n docs) ''Detail_URL'' = JStr ''https://example.com/da/123''"
  by (simp add: da_record_def)

lemma da_record_not_nullish: "\<not> nullish (da_record n docs)"
  by (simp add: da_record_def nullish_def)

lemma id_not_field: "''id'' \<notin> set da_fields"
  by (simp add: da_fields_def)

lemma extra_column_refused: "\<not> has_exact_fields (JObj ((''id'', v) # kvs))"
proof
  assume a: "has_exact_fields (JObj ((''id'', v) # kvs))"
  have "''id'' \<in> set (map fst ((''id'', v) # kvs))" by simp
  moreover from a have "set (map fst ((''id'', v) # kvs)) = set da_fields"
    by (simp only: has_exact_fields.simps)
  ultimately show False using id_not_field by metis
qed






subsection \<open>Rows and cells\<close>

lemma render_row_cells:
  "render_row row = Inr tr \<Longrightarrow>
   children tr ! 1 = detail_url_cell row \<and> children tr ! 10 = documents_cell row \<and>
   length (children tr) = 12"
  by (auto simp add: render_row_def split: if_splits)

lemma render_row_returns: "\<not> nullish row \<Longrightarrow> \<exists>tr. render_row row = Inr tr"
  by (simp add: render_row_def)

subsection \<open>After the mount\<close>

lemma run_effect_deps: "last_deps (run_effect s) = Some effect_deps"
  by (simp add: run_effect_def)

lemma step_mounted:
  assumes "last_deps s = Some effect_deps"
  shows "last_deps (step s ev) = Some effect_deps \<and> requests (step s ev) = requests s"
proof (cases ev)
  case Render
  with assms show ?thesis by (simp add: run_effect_def)
next
  case (Settled p)
  with assms show ?thesis by (cases p) (simp_all add: run_effect_def)
qed

lemma run_mounted:
  "last_deps s = Some effect_deps \<Longrightarrow>
   last_deps (run s evs) = Some effect_deps \<and> requests (run s evs) = requests s"
proof (induction evs arbitrary: s)
  case Nil
  then show ?case by (simp add: run_def)
next
  case (Cons ev evs)
  from Cons.prems
  have 1: "last_deps (step s ev) = Some effect_deps" "requests (step s ev) = requests s"
    by (simp_all add: step_mounted)
  from Cons.IH [OF 1(1)] 1(2) show ?case by (simp add: run_def)
qed

lemma failed_rejects: "failed t \<Longrightarrow> axios_get t = Rejected (rejection t)"
  by (cases t) auto

lemma view_initial: "view initial_client = Inr empty_table"
  by (simp add: view_def initial_client_def App_view_def empty_table_def)

section \<open>The claims\<close>

text \<open>
  Claim C1, as stated, fails: the route does not order the rows itself. Given the rows
  5, 3, 9 by the data service it answers 200 with the rows 5, 3, 9, not 9, 5, 3.
\<close>

theorem api_data_does_not_sort:
  "\<not> truthy (error (service_5_3_9 data_query)) \<and>
   fst (api_data_handler service_5_3_9 get_request []) =
     Inr \<lparr>status = 200,
          body = JArr [da_record 5 ''Not available'', da_record 3 ''Not available'',
                       da_record 9 ''Not available'']\<rparr> \<and>
   da_numbers (JArr [da_record 5 ''Not available'', da_record 3 ''Not available'',
                     da_record 9 ''Not available'']) = [JNum 5, JNum 3, JNum 9] \<and>
   \<not> descending (JArr [da_record 5 ''Not available'', da_record 3 ''Not available'',
                       da_record 9 ''Not available''])"
proof -
  have 1: "\<not> truthy (error (service_5_3_9 data_query))"
    by (simp add: service_5_3_9_def)
  have 2: "data (service_5_3_9 data_query) =
             JArr [da_record 5 ''Not available'', da_record 3 ''Not available'',
                   da_record 9 ''Not available'']"
    by (simp add: service_5_3_9_def)
  have 3: "da_numbers (JArr [da_record 5 ''Not available'', da_record 3 ''Not available'',
                     da_record 9 ''Not available'']) = [JNum 5, JNum 3, JNum 9]"
    by (simp add: da_record_number)
  have 4: "\<not> descending (JArr [da_record 5 ''Not available'', da_record 3 ''Not available'',
                       da_record 9 ''Not available''])"
    by (simp add: descending_def da_record_number)
  from handler_success [of service_5_3_9 get_request "[]", OF 1] 1 2 3 4
  show ?thesis by simp
qed

text \<open>
  Claim C1, amended: for every successful call (the query result's \<open>error\<close> is falsy) the
  route answers status 200 with exactly the value the data service returned, in the data
  service's order; the query it sends asks for \<open>DA_Number\<close>, not ascending; so the
  elements of the response are in descending order of \<open>DA_Number\<close> whenever the data
  service returned them so.
\<close>

theorem api_data_forwards_service_order:
  assumes "\<not> truthy (error (supabase data_query))"
  shows "fst (api_data_handler supabase req console) =
           Inr \<lparr>status = 200, body = data (supabase data_query)\<rparr> \<and>
         order_column data_query = ''DA_Number'' \<and> \<not> ascending data_query \<and>
         (descending (data (supabase data_query)) \<longrightarrow>
            (\<exists>r. fst (api_data_handler supabase req console) = Inr r \<and> descending (body r)))"
  using assms by (simp add: handler_success data_query_def)

text \<open>
  An instance: the data service returns 9, 5, 3, and so does the route.
\<close>

theorem api_data_forwards_service_order_witness:
  "fst (api_data_handler service_9_5_3 get_request []) =
     Inr \<lparr>status = 200,
          body = JArr [da_record 9 ''Not available'', da_record 5 ''Not available'',
                       da_record 3 ''Not available'']\<rparr> \<and>
   (\<exists>r. fst (api_data_handler service_9_5_3 get_request []) = Inr r \<and> descending (body r))"
proof -
  have h: "\<not> truthy (error (service_9_5_3 data_query))"
    by (simp add: service_9_5_3_def)
  have e: "data (service_9_5_3 data_query) =
     JArr [da_record 9 ''Not available'', da_record 5 ''Not available'',
           da_record 3 ''Not available'']"
    by (simp add: service_9_5_3_def)
  have d: "descending (data (service_9_5_3 data_query))"
    by (simp add: e descending_def da_record_number)
  from api_data_forwards_service_order [of service_9_5_3 get_request "[]", OF h] d e
  show ?thesis by simp
qed




text \<open>
  Claim C3: in every rendered row the Documents cell (the eleventh, index 10) holds a
  hyperlink exactly when the row's \<open>Documents\<close> value is present (truthy, as
  \<open>row.Documents &&\<close> tests it) and is not the string \<open>"Not available"\<close>; the hyperlink then
  points at that value and is labelled \<open>View Documents\<close>; otherwise the cell is the text
  \<open>Not available\<close>.
\<close>

theorem documents_cell_link_iff:
  assumes "render_row row = Inr tr"
  shows "(has_link (children tr ! 10) \<longleftrightarrow>
            truthy (field row ''Documents'') \<and>
            field row ''Documents'' \<noteq> JStr ''Not available'') \<and>
         (has_link (children tr ! 10) \<longrightarrow>
            children tr ! 10 =
              Elem ''td'' []
                [external_link (field row ''Documents'') [Expr (JStr ''View Documents'')]]) \<and>
         (\<not> has_link (children tr ! 10) \<longrightarrow>
            children tr ! 10 = Elem ''td'' [] [Expr (JStr ''Not available'')])"
proof -
  from assms have c: "children tr ! 10 = documents_cell row"
    by (simp add: render_row_cells)
  show ?thesis unfolding c
    by (simp add: documents_cell_def external_link_def)
qed

text \<open>
  Instances: a row with a document URL and a row with the sentinel.
\<close>

theorem documents_cell_link_iff_witness:
  "(\<exists>tr. render_row (da_record 1 ''https://example.com/doc.pdf'') = Inr tr \<and>
      children tr ! 10 =
        Elem ''td'' []
          [external_link (JStr ''https://example.com/doc.pdf'')
             [Expr (JStr ''View Documents'')]]) \<and>
   (\<exists>tr. render_row (da_record 2 ''Not available'') = Inr tr \<and>
      \<not> has_link (children tr ! 10) \<and>
      children tr ! 10 = Elem ''td'' [] [Expr (JStr ''Not available'')])"
proof -
  obtain tr1 where 1: "render_row (da_record 1 ''https://example.com/doc.pdf'') = Inr tr1"
    using render_row_returns [OF da_record_not_nullish] by blast
  obtain tr2 where 2: "render_row (da_record 2 ''Not available'') = Inr tr2"
    using render_row_returns [OF da_record_not_nullish] by blast
  from documents_cell_link_iff [OF 1]
  have a: "children tr1 ! 10 =
        Elem ''td'' []
          [external_link (JStr ''https://example.com/doc.pdf'')
             [Expr (JStr ''View Documents'')]]"
    by (simp add: da_record_documents)
  from documents_cell_link_iff [OF 2]
  have b: "\<not> has_link (children tr2 ! 10) \<and>
      children tr2 ! 10 = Elem ''td'' [] [Expr (JStr ''Not available'')]"
    by (simp add: da_record_documents)
  from 1 2 a b show ?thesis by blast
qed

text \<open>
  Claim C4: when the fetch fails (no response, or a status that is not 2xx), the rows are
  what they were, no request is sent again, the error is appended to what \<open>console.error\<close>
  received; after a page load whose fetch failed the rows are still the empty array and
  the view is the table of the first render: the header row, no data row, and no text
  taken from the error.
\<close>

theorem failed_fetch_keeps_rows:
  assumes "failed t"
  shows "rows (step s (Settled (axios_get t))) = rows s \<and>
         requests (step s (Settled (axios_get t))) = requests s \<and>
         console_error (step s (Settled (axios_get t))) = console_error s @ [rejection t] \<and>
         rows (run initial_client [Render, Settled (axios_get t)]) = JArr [] \<and>
         view (run initial_client [Render, Settled (axios_get t)]) = Inr empty_table \<and>
         view (run initial_client [Render, Settled (axios_get t)]) = view initial_client"
  using assms
  by (simp add: failed_rejects run_def view_def App_view_def empty_table_def run_effect_def
      initial_client_def)

text \<open>
  Instances: a network error and a response of status 500.
\<close>

theorem failed_fetch_keeps_rows_witness:
  "console_error (run initial_client [Render, Settled (axios_get (NetworkError (JStr ''Network Error'')))]) =
     [JStr ''Network Error''] \<and>
   view (run initial_client [Render, Settled (axios_get (NetworkError (JStr ''Network Error'')))]) =
     Inr empty_table \<and>
   rows (run initial_client [Render, Settled (axios_get (HttpResponse 500 (JObj [(''error'', JStr ''permission denied'')])))]) =
     JArr [] \<and>
   view (run initial_client [Render, Settled (axios_get (HttpResponse 500 (JObj [(''error'', JStr ''permission denied'')])))]) =
     Inr empty_table"
proof -
  have 1: "failed (NetworkError (JStr ''Network Error''))" by simp
  have 2: "failed (HttpResponse 500 (JObj [(''error'', JStr ''permission denied'')]))" by simp
  have 3: "console_error (step initial_client Render) = []"
    by (simp add: run_effect_def initial_client_def)
  from failed_fetch_keeps_rows [OF 1, of "step initial_client Render"] failed_fetch_keeps_rows [OF 2] 3
  show ?thesis by (simp add: run_def)
qed

text \<open>
  Claim C5, as stated, fails: the route selects every column and forwards the rows as
  they come. A row with a thirteenth column \<open>id\<close> is answered with its thirteen fields, and
  two rows of the same \<open>DA_Number\<close> are both answered.
\<close>

theorem api_data_does_not_check_records:
  "\<not> truthy (error (service_extra_column data_query)) \<and>
   fst (api_data_handler service_extra_column get_request []) =
     Inr \<lparr>status = 200, body = data (service_extra_column data_query)\<rparr> \<and>
   \<not> list_all has_exact_fields (elements (data (service_extra_column data_query))) \<and>
   \<not> truthy (error (service_duplicate data_query)) \<and>
   fst (api_data_handler service_duplicate get_request []) =
     Inr \<lparr>status = 200, body = data (service_duplicate data_query)\<rparr> \<and>
   da_numbers (data (service_duplicate data_query)) = [JNum 7, JNum 7] \<and>
   \<not> da_records (data (service_extra_column data_query)) \<and>
   \<not> da_records (data (service_duplicate data_query))"
proof -
  have 1: "\<not> truthy (error (service_extra_column data_query))"
    by (simp add: service_extra_column_def)
  have 2: "\<not> list_all has_exact_fields (elements (data (service_extra_column data_query)))"
    by (simp add: service_extra_column_def extra_column_refused del: has_exact_fields.simps)
  have 3: "\<not> truthy (error (service_duplicate data_query))"
    by (simp add: service_duplicate_def)
  have 4: "da_numbers (data (service_duplicate data_query)) = [JNum 7, JNum 7]"
    by (simp add: service_duplicate_def da_record_number)
  have 5: "\<not> da_records (data (service_extra_column data_query))"
    using 2 by (simp add: da_records_def)
  have 6: "\<not> da_records (data (service_duplicate data_query))"
    using 4 by (simp add: da_records_def)
  from handler_success [of service_extra_column get_request "[]", OF 1]
    handler_success [of service_duplicate get_request "[]", OF 3] 1 2 3 4 5 6
  show ?thesis by simp
qed

text \<open>
  Claim C5, amended: for every successful call the route answers status 200 with exactly
  the value the data service returned; so the response is an array of objects of exactly
  the twelve fields with no \<open>DA_Number\<close> twice if and only if the data service's result
  is.
\<close>

theorem api_data_forwards_records:
  assumes "\<not> truthy (error (supabase data_query))"
  shows "\<exists>r. fst (api_data_handler supabase req console) = Inr r \<and> status r = 200 \<and>
           body r = data (supabase data_query) \<and>
           (da_records (body r) \<longleftrightarrow> da_records (data (supabase data_query)))"
  using assms by (simp add: handler_success)

text \<open>
  An instance: three well-formed records of different numbers.
\<close>

theorem api_data_forwards_records_witness:
  "\<exists>r. fst (api_data_handler service_9_5_3 (other_request) [JNull]) = Inr r \<and> status r = 200 \<and>
       da_records (body r)"
proof -
  have h: "\<not> truthy (error (service_9_5_3 data_query))"
    by (simp add: service_9_5_3_def)
  have d: "da_records (data (service_9_5_3 data_query))"
    by (simp add: service_9_5_3_def da_records_def da_record_fields da_record_number
        del: has_exact_fields.simps)
  from api_data_forwards_records [of service_9_5_3 other_request "[JNull]", OF h] d
  show ?thesis by auto
qed

text \<open>
  Claim C6: in every rendered row the Detail URL cell (the second, index 1) is a hyperlink
  to the row's \<open>Detail_URL\<close> value, opened in a new tab, whose only child is that same
  value.
\<close>

theorem detail_url_cell_link:
  assumes "render_row row = Inr tr"
  shows "children tr ! 1 =
           Elem ''td'' []
             [external_link (field row ''Detail_URL'') [Expr (field row ''Detail_URL'')]]"
  using render_row_cells [OF assms] by (simp add: detail_url_cell_def external_link_def)

text \<open>
  An instance: the link's text is the URL \<open>https://example.com/da/123\<close>.
\<close>

theorem detail_url_cell_link_witness:
  "\<exists>tr. render_row (da_record 1 ''Not available'') = Inr tr \<and>
     children tr ! 1 =
       Elem ''td'' []
         [Elem ''a''
            [(''href'', JStr ''https://example.com/da/123''), (''target'', JStr ''_blank''),
             (''rel'', JStr ''noreferrer'')]
            [Expr (JStr ''https://example.com/da/123'')]]"
proof -
  obtain tr where 1: "render_row (da_record 1 ''Not available'') = Inr tr"
    using render_row_returns [OF da_record_not_nullish] by blast
  from detail_url_cell_link [OF 1] 1 show ?thesis
    by (simp add: da_record_detail_url external_link_def)
qed

text \<open>
  Claim C7: when the fetch succeeds (a response of status 2xx), the new \<open>rows\<close> is the
  response's data itself: the same elements in the same order.
\<close>

theorem successful_fetch_stores_response:
  assumes "200 \<le> st" and "st < 300"
  shows "rows (step s (Settled (axios_get (HttpResponse st d)))) = d"
  using assms by (simp add: run_effect_def)

text \<open>
  An instance: the rows 5, 3, 9 are stored as 5, 3, 9.
\<close>

theorem successful_fetch_stores_response_witness:
  "rows (run initial_client
      [Render, Settled (axios_get (HttpResponse 200
         (JArr [da_record 5 ''Not available'', da_record 3 ''Not available'',
           da_record 9 ''Not available''])))]) =
     JArr [da_record 5 ''Not available'', da_record 3 ''Not available'',
           da_record 9 ''Not available'']"
proof -
  have 1: "(200::nat) \<le> 200" "(200::nat) < 300" by simp_all
  from successful_fetch_stores_response [OF 1, of "step initial_client Render"]
  show ?thesis by (simp add: run_def)
qed

text \<open>
  Claim C8: before the mount no request has been sent; the mount sends one request to
  \<open>/api/data\<close>; and whatever events follow (renders, the promise settling either way, the
  update of \<open>rows\<close> and the render it causes), that request remains the only one.
\<close>

theorem fetch_issued_once:
  "requests initial_client = [] \<and>
   requests (step initial_client Render) = [api_url] \<and>
   requests (run (step initial_client Render) evs) = [api_url]"
proof -
  have m: "last_deps (step initial_client Render) = Some effect_deps"
    by (simp add: run_effect_deps)
  have r: "requests (step initial_client Render) = [api_url]"
    by (simp add: run_effect_def initial_client_def)
  from run_mounted [OF m, of evs] r show ?thesis by (simp add: initial_client_def)
qed

text \<open>
  Claim C9: in every rendered row whose \<open>Documents\<close> value is falsy (\<open>null\<close>, \<open>undefined\<close>
  as a missing key reads, the empty string) the Documents cell is the text
  \<open>Not available\<close> and holds no hyperlink.
\<close>

theorem falsy_documents_not_available:
  assumes "render_row row = Inr tr" and "\<not> truthy (field row ''Documents'')"
  shows "children tr ! 10 = Elem ''td'' [] [Expr (JStr ''Not available'')] \<and>
         \<not> has_link (children tr ! 10)"
  using render_row_cells [OF assms(1)] assms(2) by (simp add: documents_cell_def)

text \<open>
  Instances: the empty string, \<open>null\<close>, and a row with no \<open>Documents\<close> key.
\<close>

theorem falsy_documents_not_available_witness:
  "(\<exists>tr. render_row (da_record 1 '''') = Inr tr \<and>
      children tr ! 10 = Elem ''td'' [] [Expr (JStr ''Not available'')] \<and>
      \<not> has_link (children tr ! 10)) \<and>
   (\<exists>tr. render_row (JObj [(''DA_Number'', JNum 2), (''Documents'', JNull)]) = Inr tr \<and>
      children tr ! 10 = Elem ''td'' [] [Expr (JStr ''Not available'')] \<and>
      \<not> has_link (children tr ! 10)) \<and>
   (\<exists>tr. render_row (JObj [(''DA_Number'', JNum 3)]) = Inr tr \<and>
      field (JObj [(''DA_Number'', JNum 3)]) ''Documents'' = JUndefined \<and>
      children tr ! 10 = Elem ''td'' [] [Expr (JStr ''Not available'')] \<and>
      \<not> has_link (children tr ! 10))"
proof -
  obtain tr1 where 1: "render_row (da_record 1 '''') = Inr tr1"
    using render_row_returns [OF da_record_not_nullish] by blast
  obtain tr2 where 2: "render_row (JObj [(''DA_Number'', JNum 2), (''Documents'', JNull)]) = Inr tr2"
    using render_row_returns [of "JObj [(''DA_Number'', JNum 2), (''Documents'', JNull)]"]
    by (auto simp add: nullish_def)
  obtain tr3 where 3: "render_row (JObj [(''DA_Number'', JNum 3)]) = Inr tr3"
    using render_row_returns [of "JObj [(''DA_Number'', JNum 3)]"]
    by (auto simp add: nullish_def)
  have f1: "\<not> truthy (field (da_record 1 '''') ''Documents'')"
    by (simp add: da_record_documents)
  have f2: "\<not> truthy (field (JObj [(''DA_Number'', JNum 2), (''Documents'', JNull)]) ''Documents'')"
    by simp
  have f3: "field (JObj [(''DA_Number'', JNum 3)]) ''Documents'' = JUndefined"
    by simp
  then have f3': "\<not> truthy (field (JObj [(''DA_Number'', JNum 3)]) ''Documents'')"
    by (simp only: truthy.simps) simp
  from falsy_documents_not_available [OF 1 f1] falsy_documents_not_available [OF 2 f2]
    falsy_documents_not_available [OF 3 f3'] 1 2 3 f3
  show ?thesis by blast
qed




end
